theory Spec2Isabelle
  imports Main "HOL-Library.Sublist"
begin

section \<open>Exceptions\<close>

text \<open>
  A Python exception, as the dispatcher sees it: \<^verbatim>\<open>type(e).__name__\<close> and
  \<^verbatim>\<open>str(e)\<close>. Every function of the source that can raise returns
  \<open>exn + 'a\<close>, with \<open>Inl\<close> the raised exception.
\<close>

record exn =
  kind :: string
  message :: string

definition ValueError :: "string \<Rightarrow> exn" where
  "ValueError msg = \<lparr>kind = ''ValueError'', message = msg\<rparr>"

definition TypeError :: "string \<Rightarrow> exn" where
  "TypeError msg = \<lparr>kind = ''TypeError'', message = msg\<rparr>"

section \<open>Paths (pathlib on POSIX)\<close>

text \<open>
  \<^verbatim>\<open>pathlib.Path\<close> is the standard library's; the part of it that
  \<^verbatim>\<open>context.py\<close> uses is modelled here. A path is its root (empty,
  \<^verbatim>\<open>/\<close>, or \<^verbatim>\<open>//\<close> for exactly two leading slashes) and its
  components; parsing drops empty components and \<^verbatim>\<open>.\<close>, and keeps
  \<^verbatim>\<open>..\<close>.
\<close>

record Path =
  root :: string
  parts :: "string list"

fun split_sep :: "string \<Rightarrow> string \<Rightarrow> string list" where
  "split_sep acc [] = [rev acc]"
| "split_sep acc (c # cs) =
     (if c = CHR ''/'' then rev acc # split_sep [] cs else split_sep (c # acc) cs)"

definition splitroot :: "string \<Rightarrow> string \<times> string" where
  "splitroot p =
     (if take 1 p \<noteq> ''/'' then ('''', p)
      else if take 1 (drop 1 p) \<noteq> ''/'' \<or> take 1 (drop 2 p) = ''/'' then (''/'', drop 1 p)
      else (take 2 p, drop 2 p))"

definition parse_path :: "string \<Rightarrow> Path" where
  "parse_path p =
     (case splitroot p of
        (r, rel) \<Rightarrow> \<lparr>root = r, parts = filter (\<lambda>x. x \<noteq> [] \<and> x \<noteq> ''.'') (split_sep [] rel)\<rparr>)"

fun join_sep :: "string list \<Rightarrow> string" where
  "join_sep [] = []"
| "join_sep [x] = x"
| "join_sep (x # y # ys) = x @ ''/'' @ join_sep (y # ys)"

definition path_str :: "Path \<Rightarrow> string" where
  "path_str p =
     (if root p = [] \<and> parts p = [] then ''.'' else root p @ join_sep (parts p))"

definition is_absolute :: "Path \<Rightarrow> bool" where
  "is_absolute p = (root p \<noteq> [])"

text \<open>\<^verbatim>\<open>a / b\<close>: an absolute right operand replaces the left one.\<close>

definition joinpath :: "Path \<Rightarrow> Path \<Rightarrow> Path" where
  "joinpath a b = (if is_absolute b then b else \<lparr>root = root a, parts = parts a @ parts b\<rparr>)"

text \<open>
  \<^verbatim>\<open>Path.resolve()\<close> asks the file system. What the file system answers is an
  argument of the model: \<open>is_symlink\<close> is the answer of \<^verbatim>\<open>lstat\<close> for the
  absolute path with the given components, and \<open>through_link\<close> is the outcome of
  resolving the remaining components through the symbolic link at that path: the resolved
  path, or the exception raised (\<^verbatim>\<open>RuntimeError\<close> for a symlink loop).
\<close>

record file_system =
  is_symlink :: "string list \<Rightarrow> bool"
  through_link :: "string list \<Rightarrow> string list \<Rightarrow> exn + Path"

text \<open>
  The walk of \<^verbatim>\<open>Path.resolve()\<close> over the components, with the components
  passed so far on a stack: an empty component and \<^verbatim>\<open>.\<close> are skipped,
  \<^verbatim>\<open>..\<close> drops the component before it and stays at the root there, and every
  other component is looked at with \<^verbatim>\<open>lstat\<close>, which raises
  \<^verbatim>\<open>ValueError\<close> on a NUL character and tells whether the path so far is a
  symbolic link.
\<close>

fun walk :: "file_system \<Rightarrow> string list \<Rightarrow> string list \<Rightarrow> exn + Path" where
  "walk fs st [] = Inr \<lparr>root = ''/'', parts = rev st\<rparr>"
| "walk fs st (x # xs) =
     (if x = [] \<or> x = ''.'' then walk fs st xs
      else if x = ''..'' then walk fs (case st of [] \<Rightarrow> [] | _ # st' \<Rightarrow> st') xs
      else if CHR 0x00 \<in> set x then Inl (ValueError ''embedded null byte'')
      else if is_symlink fs (rev (x # st)) then through_link fs (rev (x # st)) xs
      else walk fs (x # st) xs)"

text \<open>
  \<^verbatim>\<open>Path.resolve()\<close>: a relative path is resolved against the process working
  directory.
\<close>

definition resolve :: "file_system \<Rightarrow> Path \<Rightarrow> Path \<Rightarrow> exn + Path" where
  "resolve fs cwd p =
     (if is_absolute p then walk fs [] (parts p)
      else walk fs (rev (parts cwd)) (parts p))"


text \<open>
  \<^verbatim>\<open>PurePath.relative_to\<close>, which \<^verbatim>\<open>get_relative_path\<close> uses: the
  roots agree and the components of the one are a prefix of the components of the other.
\<close>

definition is_relative_to :: "Path \<Rightarrow> Path \<Rightarrow> bool" where
  "is_relative_to p other = (root p = root other \<and> prefix (parts other) (parts p))"

section \<open>Project context (context.py)\<close>

text \<open>
  \<^verbatim>\<open>ProjectContext\<close> holds one field, the optional focus path. The first
  two arguments of \<open>resolve_path\<close> are the file system and the process working
  directory, which \<^verbatim>\<open>Path.resolve()\<close> reads.
\<close>

text \<open>
  \<^verbatim>\<open>set_focus\<close> returns the new focus or raises. Whether the path exists and is a
  directory is the file system's answer, here two arguments.
\<close>

definition set_focus :: "(Path \<Rightarrow> bool) \<Rightarrow> (Path \<Rightarrow> bool) \<Rightarrow> string \<Rightarrow> exn + Path option" where
  "set_focus path_exists path_is_dir path =
     (let p = parse_path path in
      if \<not> is_absolute p then Inl (ValueError (''Project path must be absolute: '' @ path))
      else if \<not> path_exists p then Inl (ValueError (''Project path does not exist: '' @ path))
      else if \<not> path_is_dir p
        then Inl (ValueError (''Project path is not a directory: '' @ path))
      else Inr (Some p))"

definition resolve_path ::
  "file_system \<Rightarrow> Path \<Rightarrow> Path option \<Rightarrow> string \<Rightarrow> exn + Path" where
  "resolve_path fs cwd focus_path path =
     (let p = parse_path path in
      if is_absolute p then Inr p
      else (case focus_path of
              None \<Rightarrow> Inl (ValueError
                (''Cannot resolve relative path '' @ [CHR 0x27] @ path @ [CHR 0x27] @
                 '' without a project focus. '' @
                 ''Use project_focus to set the current project first.''))
            | Some f \<Rightarrow> resolve fs cwd (joinpath f p)))"

text \<open>
  The \<^verbatim>\<open>except ValueError\<close> of \<^verbatim>\<open>is_within_focus\<close> catches that
  kind only; any other exception leaves the function.
\<close>

definition is_within_focus ::
  "file_system \<Rightarrow> Path \<Rightarrow> Path option \<Rightarrow> string \<Rightarrow> exn + bool" where
  "is_within_focus fs cwd focus_path path =
     (case focus_path of
        None \<Rightarrow> Inr False
      | Some f \<Rightarrow>
          (case resolve_path fs cwd focus_path path of
             Inr resolved \<Rightarrow> Inr (prefix (path_str f) (path_str resolved))
           | Inl e \<Rightarrow> if kind e = ''ValueError'' then Inr False else Inl e))"

definition get_relative_path :: "Path option \<Rightarrow> string \<Rightarrow> string" where
  "get_relative_path focus_path path =
     (case focus_path of
        None \<Rightarrow> path
      | Some f \<Rightarrow>
          (let p = parse_path path in
           if \<not> is_absolute p then path
           else if is_relative_to p f
             then path_str \<lparr>root = [], parts = drop (length (parts f)) (parts p)\<rparr>
           else path))"

section \<open>Session log (session.py)\<close>

text \<open>
  JSON values, for tool parameters and results. Python's \<^verbatim>\<open>None\<close> is
  \<open>JNull\<close>.
\<close>

datatype json =
  JNull
| JBool bool
| JInt int
| JStr string
| JArr "json list"
| JObj "(string \<times> json) list"

text \<open>
  \<^verbatim>\<open>SessionEntry.create\<close> builds a dictionary with seven keys; the record has
  one field for each (the key \<^verbatim>\<open>type\<close> is \<open>e_type\<close>). An optional value is
  \<open>None\<close> for \<^verbatim>\<open>None\<close>, which \<^verbatim>\<open>json.dumps\<close> writes as
  \<^verbatim>\<open>null\<close>. The context dictionaries of the program map
  \<^verbatim>\<open>project_focus\<close> to the focus path or to \<^verbatim>\<open>None\<close>.
\<close>

record SessionEntry =
  e_timestamp :: string
  e_type :: string
  e_tool :: "string option"
  e_params :: "(string \<times> json) list option"
  e_result :: json
  e_error :: "(string \<times> string) list option"
  e_context :: "(string \<times> string option) list option"

text \<open>
  The first argument is \<^verbatim>\<open>datetime.utcnow().isoformat()\<close>, the clock being an
  input of the model.
\<close>

definition SessionEntry_create ::
  "string \<Rightarrow> string \<Rightarrow> string option \<Rightarrow> (string \<times> json) list option \<Rightarrow> json \<Rightarrow>
   (string \<times> string) list option \<Rightarrow> (string \<times> string option) list option \<Rightarrow> SessionEntry" where
  "SessionEntry_create utcnow entry_type tool params result error ctx =
     \<lparr>e_timestamp = utcnow @ ''Z'', e_type = entry_type, e_tool = tool, e_params = params,
      e_result = result, e_error = error, e_context = ctx\<rparr>"

text \<open>
  The session directory: one log file for each session id, in the order in which
  \<^verbatim>\<open>glob\<close> lists them. A log file is its modification time (an integer number of
  microseconds) and its lines; a line is the JSON document of one entry
  (\<^verbatim>\<open>json.dumps\<close> and \<^verbatim>\<open>json.loads\<close> are the standard library's and
  inverse to each other on these entries; the log holds the lines that
  \<^verbatim>\<open>Session.append\<close> wrote).
\<close>

record log_file =
  mtime :: int
  log_lines :: "SessionEntry list"

type_synonym session_dir = "(string \<times> log_file) list"

definition SESSION_TTL_HOURS :: int where
  "SESSION_TTL_HOURS = 24"

definition SESSION_ID_PREFIX :: string where
  "SESSION_ID_PREFIX = ''sess_''"

definition timedelta_hours :: "int \<Rightarrow> int" where
  "timedelta_hours h = h * 3600 * 1000000"

record Session =
  session_id :: string
  project_focus :: "string option"
  entries :: "SessionEntry list"
  loaded :: bool

definition Session_init :: "string \<Rightarrow> Session" where
  "Session_init sid = \<lparr>session_id = sid, project_focus = None, entries = [], loaded = False\<rparr>"

text \<open>
  The body of the loop of \<^verbatim>\<open>Session._load\<close> for one line. On a
  \<^verbatim>\<open>context_change\<close> entry whose context is \<^verbatim>\<open>null\<close> the test
  \<^verbatim>\<open>"project_focus" in ctx\<close> raises \<^verbatim>\<open>TypeError\<close>; the
  exception leaves \<^verbatim>\<open>_load\<close> and its callers with the session still unloaded
  and the log untouched.
\<close>

definition load_entry :: "Session \<Rightarrow> SessionEntry \<Rightarrow> exn + Session" where
  "load_entry s entry =
     (let s' = s\<lparr>entries := entries s @ [entry]\<rparr> in
      if e_type entry = ''context_change'' then
        (case e_context entry of
           None \<Rightarrow> Inl (TypeError (''argument of type '' @ [CHR 0x27] @ ''NoneType'' @
                                  [CHR 0x27] @ '' is not iterable''))
         | Some ctx \<Rightarrow>
             (case map_of ctx ''project_focus'' of
                None \<Rightarrow> Inr s'
              | Some v \<Rightarrow> Inr (s'\<lparr>project_focus := v\<rparr>)))
      else Inr s')"

fun load_lines :: "Session \<Rightarrow> SessionEntry list \<Rightarrow> exn + Session" where
  "load_lines s [] = Inr s"
| "load_lines s (entry # rest) =
     (case load_entry s entry of Inl x \<Rightarrow> Inl x | Inr s' \<Rightarrow> load_lines s' rest)"

definition load :: "session_dir \<Rightarrow> Session \<Rightarrow> exn + Session" where
  "load dir s =
     (if loaded s then Inr s
      else (case map_of dir (session_id s) of
              None \<Rightarrow> Inr (s\<lparr>loaded := True\<rparr>)
            | Some f \<Rightarrow>
                (case load_lines s (log_lines f) of
                   Inl x \<Rightarrow> Inl x
                 | Inr s' \<Rightarrow> Inr (s'\<lparr>loaded := True\<rparr>))))"

text \<open>The property \<^verbatim>\<open>Session.project_focus\<close>.\<close>

definition get_project_focus :: "session_dir \<Rightarrow> Session \<Rightarrow> exn + string option \<times> Session" where
  "get_project_focus dir s =
     (case load dir s of Inl x \<Rightarrow> Inl x | Inr s' \<Rightarrow> Inr (project_focus s', s'))"

text \<open>
  Opening the log for append and writing one line: the file is created when absent, the
  line goes after the lines it holds, and its modification time becomes the time of the
  write.
\<close>

definition read_lines :: "session_dir \<Rightarrow> string \<Rightarrow> SessionEntry list" where
  "read_lines dir sid = (case map_of dir sid of None \<Rightarrow> [] | Some f \<Rightarrow> log_lines f)"

fun put_file :: "string \<Rightarrow> log_file \<Rightarrow> session_dir \<Rightarrow> session_dir" where
  "put_file sid f [] = [(sid, f)]"
| "put_file sid f ((n, g) # rest) =
     (if n = sid then (sid, f) # rest else (n, g) # put_file sid f rest)"

definition write_line :: "session_dir \<Rightarrow> int \<Rightarrow> string \<Rightarrow> SessionEntry \<Rightarrow> session_dir" where
  "write_line dir now sid entry =
     put_file sid \<lparr>mtime = now, log_lines = read_lines dir sid @ [entry]\<rparr> dir"

definition append_entry ::
  "session_dir \<Rightarrow> int \<Rightarrow> Session \<Rightarrow> SessionEntry \<Rightarrow> exn + Session \<times> session_dir" where
  "append_entry dir now s entry =
     (case load dir s of
        Inl x \<Rightarrow> Inl x
      | Inr s' \<Rightarrow>
          Inr (s'\<lparr>entries := entries s' @ [entry]\<rparr>, write_line dir now (session_id s') entry))"

definition log_tool_call ::
  "session_dir \<Rightarrow> int \<Rightarrow> string \<Rightarrow> Session \<Rightarrow> string \<Rightarrow> (string \<times> json) list \<Rightarrow> json \<Rightarrow>
   (string \<times> string) list option \<Rightarrow> exn + Session \<times> session_dir" where
  "log_tool_call dir now utcnow s tool params result error =
     append_entry dir now s
       (SessionEntry_create utcnow ''tool_call'' (Some tool) (Some params) result error
          (Some [(''project_focus'', project_focus s)]))"

definition log_context_change ::
  "session_dir \<Rightarrow> int \<Rightarrow> string \<Rightarrow> Session \<Rightarrow> string option \<Rightarrow> exn + Session \<times> session_dir" where
  "log_context_change dir now utcnow s focus =
     append_entry dir now (s\<lparr>project_focus := focus\<rparr>)
       (SessionEntry_create utcnow ''context_change'' None None JNull None
          (Some [(''project_focus'', focus)]))"

text \<open>
  The clocks that the session manager reads, inputs of the model: the conversion
  \<^verbatim>\<open>datetime.fromtimestamp\<close> of a modification time to local time and
  \<^verbatim>\<open>datetime.now()\<close> (both in microseconds, as the modification times are),
  \<^verbatim>\<open>datetime.utcnow().isoformat()\<close>, and the modification time that the file
  system gives to a write. One reading serves a whole call.
\<close>

record Clock =
  fromtimestamp :: "int \<Rightarrow> int"
  datetime_now :: int
  utcnow_iso :: string
  write_time :: int

definition is_expired :: "session_dir \<Rightarrow> Clock \<Rightarrow> Session \<Rightarrow> bool" where
  "is_expired dir clk s =
     (case map_of dir (session_id s) of
        None \<Rightarrow> True
      | Some f \<Rightarrow>
          datetime_now clk > fromtimestamp clk (mtime f) + timedelta_hours SESSION_TTL_HOURS)"

subsection \<open>SessionManager\<close>

text \<open>
  Each method returns the session and the directory after it; the manager's
  \<^verbatim>\<open>_current_session\<close> is the session returned. The random suffix of
  \<^verbatim>\<open>generate_session_id\<close> is an argument.
\<close>

definition generate_session_id :: "string \<Rightarrow> string" where
  "generate_session_id rand_suffix = SESSION_ID_PREFIX @ rand_suffix"

definition create_session ::
  "session_dir \<Rightarrow> Clock \<Rightarrow> string \<Rightarrow> exn + Session \<times> session_dir" where
  "create_session dir clk rand_suffix =
     append_entry dir (write_time clk) (Session_init (generate_session_id rand_suffix))
       (SessionEntry_create (utcnow_iso clk) ''session_start'' None None JNull None None)"

definition resume_session ::
  "session_dir \<Rightarrow> Clock \<Rightarrow> string \<Rightarrow> exn + (Session \<times> session_dir) option" where
  "resume_session dir clk sid =
     (let s = Session_init sid in
      if map_of dir sid = None then Inr None
      else if is_expired dir clk s then Inr None
      else (case load dir s of
              Inl x \<Rightarrow> Inl x
            | Inr s' \<Rightarrow>
                (case append_entry dir (write_time clk) s'
                        (SessionEntry_create (utcnow_iso clk) ''session_resume'' None None JNull
                           None None) of
                   Inl x \<Rightarrow> Inl x
                 | Inr r \<Rightarrow> Inr (Some r))))"

text \<open>
  \<^verbatim>\<open>glob("sess_*.jsonl")\<close>, and the sort by modification time, newest first;
  Python's sort is stable, also with \<^verbatim>\<open>reverse=True\<close>.
\<close>

definition glob_sessions :: "session_dir \<Rightarrow> (string \<times> log_file) list" where
  "glob_sessions dir = filter (\<lambda>(n, f). prefix ''sess_'' n) dir"

definition newest_first :: "(string \<times> log_file) list \<Rightarrow> (string \<times> log_file) list" where
  "newest_first fs = sort_key (\<lambda>(n, f). - mtime f) fs"

fun continue_loop ::
  "session_dir \<Rightarrow> Clock \<Rightarrow> (string \<times> log_file) list \<Rightarrow>
   exn + (Session \<times> session_dir) option" where
  "continue_loop dir clk [] = Inr None"
| "continue_loop dir clk ((n, f) # rest) =
     (let s = Session_init n in
      if \<not> is_expired dir clk s then
        (case load dir s of
           Inl x \<Rightarrow> Inl x
         | Inr s' \<Rightarrow>
             (case append_entry dir (write_time clk) s'
                     (SessionEntry_create (utcnow_iso clk) ''session_continue'' None None JNull
                        None None) of
                Inl x \<Rightarrow> Inl x
              | Inr r \<Rightarrow> Inr (Some r)))
      else continue_loop dir clk rest)"

definition continue_last_session ::
  "session_dir \<Rightarrow> Clock \<Rightarrow> exn + (Session \<times> session_dir) option" where
  "continue_last_session dir clk =
     (let session_files = glob_sessions dir in
      if session_files = [] then Inr None
      else continue_loop dir clk (newest_first session_files))"

definition get_or_create_session ::
  "session_dir \<Rightarrow> Clock \<Rightarrow> string \<Rightarrow> string option \<Rightarrow> bool \<Rightarrow>
   exn + Session \<times> session_dir" where
  "get_or_create_session dir clk rand_suffix resume_id continue_last =
     (case (case resume_id of
              None \<Rightarrow> Inr None
            | Some sid \<Rightarrow> if sid = [] then Inr None else resume_session dir clk sid) of
        Inl x \<Rightarrow> Inl x
      | Inr (Some r) \<Rightarrow> Inr r
      | Inr None \<Rightarrow>
          (case (if continue_last then continue_last_session dir clk else Inr None) of
             Inl x \<Rightarrow> Inl x
           | Inr (Some r) \<Rightarrow> Inr r
           | Inr None \<Rightarrow> create_session dir clk rand_suffix))"

text \<open>A sequence of appends by one session, each with the time of its write.\<close>

fun append_all ::
  "session_dir \<Rightarrow> Session \<Rightarrow> (int \<times> SessionEntry) list \<Rightarrow> exn + Session \<times> session_dir" where
  "append_all dir s [] = Inr (s, dir)"
| "append_all dir s ((now, entry) # rest) =
     (case append_entry dir now s entry of
        Inl x \<Rightarrow> Inl x
      | Inr (s', dir') \<Rightarrow> append_all dir' s' rest)"

section \<open>Tools (config.py, schemas, tools/base.py)\<close>

datatype ApprovalLevel = AUTO | CONFIRM | EXPLICIT

text \<open>The string of an approval level (\<^verbatim>\<open>ApprovalLevel.value\<close>).\<close>

fun level_value :: "ApprovalLevel \<Rightarrow> string" where
  "level_value AUTO = ''auto''"
| "level_value CONFIRM = ''confirm''"
| "level_value EXPLICIT = ''explicit''"

text \<open>
  \<^verbatim>\<open>BaseToolParams\<close> and one of its subclasses. A tool's parameter class
  extends \<^verbatim>\<open>BaseToolParams\<close>, as a record extends a record.
\<close>

record BaseToolParams =
  dry_run :: bool

record BashRunParams = BaseToolParams +
  command :: string
  timeout :: int
  cwd :: "string option"

record ErrorDetail =
  err_type :: string
  err_message :: string
  err_tool :: "string option"
  err_details :: "(string \<times> json) list"

record ContextInfo =
  project :: "string option"
  ci_session_id :: "string option"
  additional :: "(string \<times> json) list"

record ToolResponse =
  success :: bool
  r_session_id :: string
  r_tool :: string
  r_approval_level :: string
  r_dry_run :: bool
  r_result :: json
  r_context :: ContextInfo
  r_error :: "ErrorDetail option"
  r_timestamp :: string

definition success_response ::
  "string \<Rightarrow> string \<Rightarrow> string \<Rightarrow> string \<Rightarrow> json \<Rightarrow> ContextInfo \<Rightarrow> bool \<Rightarrow> ToolResponse" where
  "success_response utcnow sid tool level result ctx dry =
     \<lparr>success = True, r_session_id = sid, r_tool = tool, r_approval_level = level,
      r_dry_run = dry, r_result = result, r_context = ctx, r_error = None,
      r_timestamp = utcnow @ ''Z''\<rparr>"

definition error_response ::
  "string \<Rightarrow> string \<Rightarrow> string \<Rightarrow> string \<Rightarrow> string \<Rightarrow> string \<Rightarrow> ContextInfo \<Rightarrow> ToolResponse" where
  "error_response utcnow sid tool level error_type error_message ctx =
     \<lparr>success = False, r_session_id = sid, r_tool = tool, r_approval_level = level,
      r_dry_run = False, r_result = JNull, r_context = ctx,
      r_error = Some \<lparr>err_type = error_type, err_message = error_message,
                       err_tool = Some tool, err_details = []\<rparr>,
      r_timestamp = utcnow @ ''Z''\<rparr>"

text \<open>
  What a tool works on: the session, the project context (its focus path) and the session
  directory.
\<close>

record world =
  w_session :: Session
  w_focus :: "Path option"
  w_dir :: session_dir

text \<open>
  A tool: its metadata and its \<^verbatim>\<open>execute\<close>. \<open>params_model\<close> is
  \<^verbatim>\<open>params_model.model_validate\<close> (pydantic's, so a parameter of the model): it
  returns the validated parameters or raises. \<open>execute\<close> returns a JSON result or raises,
  and may change the session, the context and the log.
\<close>

record 'p ToolMetadata =
  name :: string
  approval_level :: ApprovalLevel
  description :: string
  params_model :: "(string \<times> json) list \<Rightarrow> exn + 'p BaseToolParams_scheme"

record 'p BaseTool =
  metadata :: "'p ToolMetadata"
  execute :: "'p BaseToolParams_scheme \<Rightarrow> world \<Rightarrow> (exn + json) \<times> world"

definition validate_params ::
  "'p BaseTool \<Rightarrow> (string \<times> json) list \<Rightarrow> exn + 'p BaseToolParams_scheme" where
  "validate_params t params = params_model (metadata t) params"

definition focus_path_str :: "Path option \<Rightarrow> string option" where
  "focus_path_str focus_path = (case focus_path of None \<Rightarrow> None | Some f \<Rightarrow> Some (path_str f))"

text \<open>
  The \<^verbatim>\<open>except Exception\<close> branch of \<^verbatim>\<open>BaseTool.run\<close>: the error is
  logged, then the error envelope is returned. An exception raised by the logging itself
  leaves \<^verbatim>\<open>run\<close>.
\<close>

definition run_except ::
  "'p BaseTool \<Rightarrow> int \<Rightarrow> string \<Rightarrow> (string \<times> json) list \<Rightarrow> ContextInfo \<Rightarrow> exn \<Rightarrow> world \<Rightarrow>
   exn + ToolResponse \<times> world" where
  "run_except t now utcnow raw_params context_info e w =
     (let error_info = [(''type'', kind e), (''message'', message e)] in
      case log_tool_call (w_dir w) now utcnow (w_session w) (name (metadata t)) raw_params
             JNull (Some error_info) of
        Inl x \<Rightarrow> Inl x
      | Inr (s', dir') \<Rightarrow>
          Inr (error_response utcnow (session_id (w_session w)) (name (metadata t))
                 (level_value (approval_level (metadata t))) (kind e) (message e) context_info,
               w\<lparr>w_session := s', w_dir := dir'\<rparr>))"

text \<open>
  \<^verbatim>\<open>BaseTool.run\<close>. The result of \<open>execute\<close> is a JSON value here, so the
  \<^verbatim>\<open>isinstance\<close> test before logging keeps it as it is. When the logging of a
  result raises, the \<^verbatim>\<open>except\<close> branch runs on the state the failed call left;
  a failed \<^verbatim>\<open>_load\<close> leaves the session unloaded and the log as it was, so the
  second logging meets the same log.
\<close>

definition run ::
  "'p BaseTool \<Rightarrow> int \<Rightarrow> string \<Rightarrow> (string \<times> json) list \<Rightarrow> bool \<Rightarrow> world \<Rightarrow>
   exn + ToolResponse \<times> world" where
  "run t now utcnow raw_params auto_approve w =
     (let context_info = \<lparr>project = focus_path_str (w_focus w),
                           ci_session_id = Some (session_id (w_session w)),
                           additional = []\<rparr>;
          sid = session_id (w_session w);
          tool_name = name (metadata t);
          level = level_value (approval_level (metadata t)) in
      case validate_params t raw_params of
        Inl e \<Rightarrow> run_except t now utcnow raw_params context_info e w
      | Inr params \<Rightarrow>
          if \<not> auto_approve \<and> approval_level (metadata t) = EXPLICIT then
            Inr (error_response utcnow sid tool_name level ''ApprovalRequired''
                   (''Tool '' @ [CHR 0x27] @ tool_name @ [CHR 0x27] @
                    '' requires explicit approval. '' @
                    ''Use --auto-approve flag to execute.'')
                   context_info, w)
          else if dry_run params then
            Inr (success_response utcnow sid tool_name level
                   (JObj [(''dry_run'', JBool True),
                          (''would_execute'', JStr tool_name),
                          (''params'', JObj raw_params),
                          (''approval_level'', JStr level)])
                   context_info True, w)
          else
            (case execute t params w of
               (Inl e, w') \<Rightarrow> run_except t now utcnow raw_params context_info e w'
             | (Inr result, w') \<Rightarrow>
                 (case log_tool_call (w_dir w') now utcnow (w_session w') tool_name raw_params
                         result None of
                    Inl e \<Rightarrow> run_except t now utcnow raw_params context_info e w'
                  | Inr (s', dir') \<Rightarrow>
                      Inr (success_response utcnow (session_id (w_session w')) tool_name level
                             result context_info False,
                           w'\<lparr>w_session := s', w_dir := dir'\<rparr>))))"

subsection \<open>The tool \<^verbatim>\<open>bash_run\<close>\<close>

text \<open>
  pydantic is a library. Its part in the model is an argument: the text of its validation
  report, and its conversion, in lax mode, of a value that is not of the declared type to
  an integer or to a boolean (\<open>None\<close> when it refuses the value).
\<close>

record pydantic =
  report :: "(string \<times> json) list \<Rightarrow> string"
  lax_int :: "json \<Rightarrow> int option"
  lax_bool :: "json \<Rightarrow> bool option"

text \<open>
  The schema \<^verbatim>\<open>BashRunParams\<close>: unknown fields are rejected,
  \<^verbatim>\<open>command\<close> is a required string, \<^verbatim>\<open>timeout\<close> an integer from 1 to 300
  with default 60, \<^verbatim>\<open>cwd\<close> an optional string, \<^verbatim>\<open>dry_run\<close> a boolean with
  default false. A value of the declared type is taken as it is; any other value for an
  integer or a boolean field goes through the library's conversion.
\<close>

definition in_range :: "int \<Rightarrow> int option" where
  "in_range n = (if 1 \<le> n \<and> n \<le> 300 then Some n else None)"

definition BashRunParams_validate ::
  "pydantic \<Rightarrow> (string \<times> json) list \<Rightarrow> exn + BashRunParams" where
  "BashRunParams_validate lib raw =
     (let bad = Inl \<lparr>kind = ''ValidationError'', message = report lib raw\<rparr> in
      if \<not> list_all (\<lambda>k. k \<in> set [''dry_run'', ''command'', ''timeout'', ''cwd'']) (map fst raw)
      then bad
      else
        (case (map_of raw ''command'',
               (case map_of raw ''timeout'' of
                  None \<Rightarrow> Some 60
                | Some (JInt n) \<Rightarrow> in_range n
                | Some v \<Rightarrow> (case lax_int lib v of None \<Rightarrow> None | Some n \<Rightarrow> in_range n)),
               (case map_of raw ''cwd'' of
                  None \<Rightarrow> Some None
                | Some JNull \<Rightarrow> Some None
                | Some (JStr d) \<Rightarrow> Some (Some d)
                | Some _ \<Rightarrow> None),
               (case map_of raw ''dry_run'' of
                  None \<Rightarrow> Some False
                | Some (JBool b) \<Rightarrow> Some b
                | Some v \<Rightarrow> lax_bool lib v)) of
           (Some (JStr c), Some t, Some d, Some dry) \<Rightarrow>
             Inr \<lparr>dry_run = dry, command = c, timeout = t, cwd = d\<rparr>
         | _ \<Rightarrow> bad))"

text \<open>
  \<^verbatim>\<open>BashRunTool\<close>: the metadata of \<^verbatim>\<open>tools/bash.py\<close>; its
  \<^verbatim>\<open>execute\<close> runs a subprocess and is a parameter.
\<close>

definition BashRunTool ::
  "pydantic \<Rightarrow> (BashRunParams \<Rightarrow> world \<Rightarrow> (exn + json) \<times> world) \<Rightarrow>
   \<lparr>command :: string, timeout :: int, cwd :: string option\<rparr> BaseTool" where
  "BashRunTool lib exec =
     \<lparr>metadata = \<lparr>name = ''bash_run'', approval_level = EXPLICIT,
                   description = ''Execute arbitrary bash commands. Escape hatch for operations not covered by other tools. Requires explicit approval.'',
                   params_model = BashRunParams_validate lib\<rparr>,
      execute = exec\<rparr>"

section \<open>Example values\<close>

text \<open>
  A session with one entry, loaded, and its log; and the tool \<^verbatim>\<open>bash_run\<close> with a
  library that has a fixed report text and converts nothing (the examples give every field
  a value of its declared type), and an \<^verbatim>\<open>execute\<close> that returns
  \<^verbatim>\<open>None\<close>.
\<close>

definition example_start :: SessionEntry where
  "example_start =
     SessionEntry_create ''2025-01-01T00:00:00'' ''session_start'' None None JNull None None"

definition example_dir :: session_dir where
  "example_dir = [(''sess_abc12345'', \<lparr>mtime = 0, log_lines = [example_start]\<rparr>)]"

definition example_world :: world where
  "example_world =
     \<lparr>w_session = \<lparr>session_id = ''sess_abc12345'', project_focus = None,
                    entries = [example_start], loaded = True\<rparr>,
      w_focus = None, w_dir = example_dir\<rparr>"

definition example_pydantic :: pydantic where
  "example_pydantic =
     \<lparr>report = (\<lambda>raw. ''validation error for BashRunParams''),
      lax_int = (\<lambda>v. None),
      lax_bool = (\<lambda>v. None)\<rparr>"

definition example_tool ::
  "\<lparr>command :: string, timeout :: int, cwd :: string option\<rparr> BaseTool" where
  "example_tool = BashRunTool example_pydantic (\<lambda>p w. (Inr JNull, w))"

text \<open>
  Four appends: two changes of focus with tool calls between and after them.
\<close>

definition example_appends :: "(int \<times> SessionEntry) list" where
  "example_appends =
     [(5, SessionEntry_create ''2025-01-01T00:00:05'' ''context_change'' None None JNull None
            (Some [(''project_focus'', Some ''/tmp/a'')])),
      (6, SessionEntry_create ''2025-01-01T00:00:06'' ''tool_call'' (Some ''file_read'')
            (Some [(''path'', JStr ''x.txt'')]) (JStr ''text'') None
            (Some [(''project_focus'', Some ''/tmp/a'')])),
      (7, SessionEntry_create ''2025-01-01T00:00:07'' ''context_change'' None None JNull None
            (Some [(''project_focus'', Some ''/tmp/proj'')])),
      (8, SessionEntry_create ''2025-01-01T00:00:08'' ''tool_call'' (Some ''file_read'')
            (Some [(''path'', JStr ''y.txt'')]) (JStr ''text'') None
            (Some [(''project_focus'', Some ''/tmp/proj'')]))]"


text \<open>
  Three session logs and a clock whose local time goes back by one hour at the instant
  1500 (the end of daylight saving time): the newest log, written after that instant, is
  expired, and the two older ones, written before it, are not.
\<close>

definition example_logs :: session_dir where
  "example_logs =
     [(''sess_oldest00'', \<lparr>mtime = 500, log_lines = [example_start]\<rparr>),
      (''sess_newest00'', \<lparr>mtime = 2000, log_lines = [example_start]\<rparr>),
      (''sess_second00'', \<lparr>mtime = 1000, log_lines = [example_start]\<rparr>)]"

definition example_clock :: Clock where
  "example_clock =
     \<lparr>fromtimestamp = (\<lambda>t. if t < 1500 then t + 3600000000 else t),
      datetime_now = 86400005000,
      utcnow_iso = ''2025-01-02T00:00:00'',
      write_time = 86400005000\<rparr>"

text \<open>
  Three file systems: one without symbolic links; one where \<^verbatim>\<open>/tmp/proj\<close> is
  a symbolic link to the directory \<^verbatim>\<open>/srv/real\<close>, below which there is no
  link; and one where \<^verbatim>\<open>/tmp/proj/loop\<close> is a symbolic link to itself.
\<close>

definition no_links_fs :: file_system where
  "no_links_fs =
     \<lparr>is_symlink = (\<lambda>q. False),
      through_link = (\<lambda>q rest. Inr \<lparr>root = ''/'', parts = q @ rest\<rparr>)\<rparr>"

definition linked_focus_fs :: file_system where
  "linked_focus_fs =
     \<lparr>is_symlink = (\<lambda>q. q = [''tmp'', ''proj'']),
      through_link = (\<lambda>q rest. walk no_links_fs [''real'', ''srv''] rest)\<rparr>"




section \<open>Notions of the specification\<close>

text \<open>
  The focus a replay should report, in the words of the specification: the value carried
  by the last \<^verbatim>\<open>context_change\<close> entry, or none when there is no such entry.
\<close>

definition carried_focus :: "SessionEntry \<Rightarrow> string option" where
  "carried_focus entry =
     (case e_context entry of
        None \<Rightarrow> None
      | Some ctx \<Rightarrow> (case map_of ctx ''project_focus'' of None \<Rightarrow> None | Some v \<Rightarrow> v))"

definition last_focus :: "SessionEntry list \<Rightarrow> string option" where
  "last_focus es =
     (case rev (filter (\<lambda>e. e_type e = ''context_change'') es) of
        [] \<Rightarrow> None
      | e # _ \<Rightarrow> carried_focus e)"

text \<open>
  An entry that a replay can read: a \<^verbatim>\<open>context_change\<close> entry carries a focus
  value. Every entry that the program writes is of this form.
\<close>

definition replayable :: "SessionEntry \<Rightarrow> bool" where
  "replayable entry =
     (if e_type entry = ''context_change''
      then (case e_context entry of
              None \<Rightarrow> False
            | Some ctx \<Rightarrow> map_of ctx ''project_focus'' \<noteq> None)
      else True)"


text \<open>
  The session that continue-most-recent should return, in the words of the specification:
  the first log that is not expired, in the order of modification time, newest first.
\<close>

definition log_expired :: "Clock \<Rightarrow> log_file \<Rightarrow> bool" where
  "log_expired clk f =
     (datetime_now clk > fromtimestamp clk (mtime f) + timedelta_hours SESSION_TTL_HOURS)"

definition first_unexpired :: "session_dir \<Rightarrow> Clock \<Rightarrow> (string \<times> log_file) option" where
  "first_unexpired dir clk =
     find (\<lambda>(n, f). \<not> log_expired clk f) (newest_first (glob_sessions dir))"


text \<open>
  Collapsing as a rewriting: an empty component or \<^verbatim>\<open>.\<close> goes; a component
  proper and the \<^verbatim>\<open>..\<close> after it go together; at the root a leading
  \<^verbatim>\<open>..\<close> goes.
\<close>

definition plain :: "string \<Rightarrow> bool" where
  "plain x = (x \<noteq> [] \<and> x \<noteq> ''.'' \<and> x \<noteq> ''..'')"

inductive collapse_step :: "string list \<Rightarrow> string list \<Rightarrow> bool" where
  dot: "x = [] \<or> x = ''.'' \<Longrightarrow> collapse_step (xs @ x # ys) (xs @ ys)"
| pair: "plain a \<Longrightarrow> collapse_step (xs @ a # ''..'' # ys) (xs @ ys)"
| at_root: "collapse_step (''..'' # ys) ys"

section \<open>Path resolution: properties\<close>





text \<open>A list of components proper cannot be collapsed further.\<close>

lemma collapse_step_needs_special:
  "collapse_step xs ys \<Longrightarrow> \<not> list_all plain xs"
  by (induction rule: collapse_step.induct) (auto simp: plain_def)



lemma parse_path_plain: "list_all plain (filter (\<lambda>x. x \<noteq> ''..'') (parts (parse_path p)))"
  by (auto simp: parse_path_def plain_def list_all_iff split: prod.splits)


lemma parse_path_no_dot: "''.'' \<notin> set (parts (parse_path p))"
  by (simp add: parse_path_def split: prod.splits)

lemma is_absolute_parse_path: "is_absolute (parse_path p) = (take 1 p = ''/'')"
  by (cases p) (auto simp: parse_path_def splitroot_def is_absolute_def split: prod.splits)

text \<open>A focus that \<^verbatim>\<open>set_focus\<close> accepted is absolute and has no \<^verbatim>\<open>.\<close>.\<close>

lemma set_focus_absolute:
  "set_focus path_exists path_is_dir path = Inr (Some F) \<Longrightarrow>
   is_absolute F \<and> ''.'' \<notin> set (parts F)"
  by (auto simp: set_focus_def Let_def parse_path_no_dot split: if_splits)


lemma parse_etc_hosts: "parse_path ''/etc/hosts'' = \<lparr>root = ''/'', parts = [''etc'', ''hosts'']\<rparr>"
  by (simp add: parse_path_def splitroot_def)







text \<open>
  C1. \<^verbatim>\<open>is_within_focus\<close> should compare the resolved path with the focus
  component by component, so that with focus \<^verbatim>\<open>/root/proj\<close> the path
  \<^verbatim>\<open>/root/proj2/x\<close> is not within the focus. The code compares the two strings:
  at this input it answers true, while the components of the focus are not a prefix of the
  components of the path (the comparison of \<^verbatim>\<open>relative_to\<close>, which
  \<^verbatim>\<open>get_relative_path\<close> uses, says so).
\<close>

theorem is_within_focus_sibling_prefix:
  "is_within_focus fs wd (Some (parse_path ''/root/proj'')) ''/root/proj2/x'' = Inr True
   \<and> \<not> is_relative_to (parse_path ''/root/proj2/x'') (parse_path ''/root/proj'')
   \<and> get_relative_path (Some (parse_path ''/root/proj'')) ''/root/proj2/x'' = ''/root/proj2/x''"
  by (simp add: is_within_focus_def resolve_path_def parse_path_def splitroot_def
      is_absolute_def path_str_def is_relative_to_def get_relative_path_def)

text \<open>
  C9. For every absolute path and every focus, set or not, \<^verbatim>\<open>resolve_path\<close>
  returns the path itself: the \<^verbatim>\<open>Path\<close> of the argument, with no focus put
  before it and nothing collapsed, whatever the file system and the working directory.
\<close>

theorem resolve_path_absolute:
  "is_absolute (parse_path p) \<Longrightarrow> resolve_path fs wd focus p = Inr (parse_path p)"
  by (simp add: resolve_path_def)

theorem resolve_path_absolute_witness:
  "is_absolute (parse_path ''/etc/hosts'')
   \<and> resolve_path linked_focus_fs \<lparr>root = ''/'', parts = [''srv'']\<rparr> None ''/etc/hosts''
       = Inr \<lparr>root = ''/'', parts = [''etc'', ''hosts'']\<rparr>
   \<and> resolve_path linked_focus_fs \<lparr>root = ''/'', parts = [''srv'']\<rparr>
         (Some (parse_path ''/tmp/proj'')) ''/etc/hosts''
       = Inr \<lparr>root = ''/'', parts = [''etc'', ''hosts'']\<rparr>"
proof -
  have a: "is_absolute (parse_path ''/etc/hosts'')"
    by (simp add: parse_etc_hosts is_absolute_def)
  show ?thesis
    using a
      resolve_path_absolute [OF a, of linked_focus_fs "\<lparr>root = ''/'', parts = [''srv'']\<rparr>" None]
      resolve_path_absolute [OF a, of linked_focus_fs "\<lparr>root = ''/'', parts = [''srv'']\<rparr>"
        "Some (parse_path ''/tmp/proj'')"]
    by (simp only: parse_etc_hosts simp_thms)
qed








section \<open>The dispatcher: properties\<close>

lemma map_of_put_file: "map_of (put_file sid f dir) = (map_of dir)(sid \<mapsto> f)"
  by (induction dir) (auto simp: fun_eq_iff)

lemma read_lines_write_line:
  "read_lines (write_line dir now sid entry) sid' =
     (if sid' = sid then read_lines dir sid @ [entry] else read_lines dir sid')"
  by (simp add: read_lines_def write_line_def map_of_put_file)

lemma load_entry_session_id: "load_entry s e = Inr s' \<Longrightarrow> session_id s' = session_id s"
  by (auto simp: load_entry_def Let_def split: if_splits option.splits)

lemma load_lines_session_id: "load_lines s es = Inr s' \<Longrightarrow> session_id s' = session_id s"
proof (induction es arbitrary: s)
  case Nil
  then show ?case by simp
next
  case (Cons e es)
  then show ?case
    by (cases "load_entry s e") (auto dest: load_entry_session_id)
qed

lemma load_session_id: "load dir s = Inr s' \<Longrightarrow> session_id s' = session_id s"
  by (auto simp: load_def split: if_splits option.splits sum.splits dest: load_lines_session_id)

lemma load_loaded: "load dir s = Inr s' \<Longrightarrow> loaded s'"
  by (auto simp: load_def split: if_splits option.splits sum.splits)

lemma load_of_loaded: "loaded s \<Longrightarrow> load dir s = Inr s"
  by (simp add: load_def)

text \<open>
  C3. For every tool of tier EXPLICIT, \<^verbatim>\<open>run\<close> with parameters that pass the
  schema and without \<^verbatim>\<open>auto_approve\<close> returns the error envelope of type
  \<^verbatim>\<open>ApprovalRequired\<close>, and the session, its entries and the log are as before:
  nothing is appended.
\<close>

theorem run_explicit_denied:
  assumes "approval_level (metadata t) = EXPLICIT"
    and "validate_params t raw = Inr params"
  shows "run t now utcnow raw False w =
           Inr (error_response utcnow (session_id (w_session w)) (name (metadata t)) ''explicit''
                  ''ApprovalRequired''
                  (''Tool '' @ [CHR 0x27] @ name (metadata t) @ [CHR 0x27] @
                   '' requires explicit approval. '' @ ''Use --auto-approve flag to execute.'')
                  \<lparr>project = focus_path_str (w_focus w),
                    ci_session_id = Some (session_id (w_session w)), additional = []\<rparr>,
                w)
         \<and> (\<exists>resp w'. run t now utcnow raw False w = Inr (resp, w')
               \<and> \<not> success resp
               \<and> map_option err_type (r_error resp) = Some ''ApprovalRequired''
               \<and> entries (w_session w') = entries (w_session w)
               \<and> w_dir w' = w_dir w)"
  using assms by (simp add: run_def Let_def error_response_def)

text \<open>
  C4, as amended. For every tool that is not of tier EXPLICIT, or that is run with
  \<^verbatim>\<open>auto_approve\<close>, \<^verbatim>\<open>run\<close> with parameters that pass the schema and
  have \<^verbatim>\<open>dry_run\<close> true returns an envelope with success true and
  \<^verbatim>\<open>dry_run\<close> true, whose result names the tool and its tier; the session and
  the log are as before. (A tool of tier EXPLICIT without \<^verbatim>\<open>auto_approve\<close> is
  denied before the preview, and parameters that fail the schema are answered by an error
  that is logged: see the counterexample.)
\<close>

theorem run_dry_run_preview:
  assumes "validate_params t raw = Inr params"
    and "dry_run params"
    and "auto_approve \<or> approval_level (metadata t) \<noteq> EXPLICIT"
  shows "\<exists>resp w'. run t now utcnow raw auto_approve w = Inr (resp, w')
           \<and> success resp \<and> r_dry_run resp
           \<and> r_result resp = JObj [(''dry_run'', JBool True),
                                    (''would_execute'', JStr (name (metadata t))),
                                    (''params'', JObj raw),
                                    (''approval_level'',
                                     JStr (level_value (approval_level (metadata t))))]
           \<and> w' = w"
  using assms by (auto simp: run_def Let_def success_response_def)

text \<open>
  C5. For every tool and every raw parameter dictionary that fails the schema, on a session
  whose log can be replayed (a loaded session is one), \<^verbatim>\<open>run\<close> returns an error
  envelope (success false) with the kind and the message of the validation error, and
  appends exactly one \<^verbatim>\<open>tool_call\<close> entry, which carries that kind and message,
  to the entries of the session and to the end of its log; the other logs are as before.
\<close>

theorem run_validation_error_logged:
  assumes "validate_params t raw = Inl e"
    and "load (w_dir w) (w_session w) = Inr s1"
  shows "\<exists>resp w' entry.
           run t now utcnow raw auto_approve w = Inr (resp, w')
           \<and> \<not> success resp
           \<and> r_error resp = Some \<lparr>err_type = kind e, err_message = message e,
                                    err_tool = Some (name (metadata t)), err_details = []\<rparr>
           \<and> entry = SessionEntry_create utcnow ''tool_call'' (Some (name (metadata t)))
                       (Some raw) JNull (Some [(''type'', kind e), (''message'', message e)])
                       (Some [(''project_focus'', project_focus (w_session w))])
           \<and> e_type entry = ''tool_call''
           \<and> e_tool entry = Some (name (metadata t))
           \<and> e_params entry = Some raw
           \<and> e_result entry = JNull
           \<and> e_error entry = Some [(''type'', kind e), (''message'', message e)]
           \<and> e_context entry = Some [(''project_focus'', project_focus (w_session w))]
           \<and> e_timestamp entry = utcnow @ ''Z''
           \<and> entries (w_session w') = entries s1 @ [entry]
           \<and> read_lines (w_dir w') (session_id (w_session w))
               = read_lines (w_dir w) (session_id (w_session w)) @ [entry]
           \<and> (\<forall>sid. sid \<noteq> session_id (w_session w) \<longrightarrow>
                  read_lines (w_dir w') sid = read_lines (w_dir w) sid)"
  using assms load_session_id [OF assms(2)]
  by (simp add: run_def run_except_def log_tool_call_def append_entry_def Let_def
      error_response_def read_lines_write_line SessionEntry_create_def)


subsection \<open>The dispatcher on \<^verbatim>\<open>bash_run\<close>\<close>

lemma example_tool_explicit: "approval_level (metadata example_tool) = EXPLICIT"
  by (simp add: example_tool_def BashRunTool_def)

lemma example_validate_ls:
  "validate_params example_tool [(''command'', JStr ''ls'')] =
     Inr \<lparr>dry_run = False, command = ''ls'', timeout = 60, cwd = None\<rparr>"
  by (simp add: example_tool_def BashRunTool_def validate_params_def BashRunParams_validate_def
      example_pydantic_def in_range_def)

lemma example_validate_ls_dry:
  "validate_params example_tool [(''command'', JStr ''ls''), (''dry_run'', JBool True)] =
     Inr \<lparr>dry_run = True, command = ''ls'', timeout = 60, cwd = None\<rparr>"
  by (simp add: example_tool_def BashRunTool_def validate_params_def BashRunParams_validate_def
      example_pydantic_def in_range_def)

lemma example_validate_missing:
  "validate_params example_tool [(''dry_run'', JBool True)] =
     Inl \<lparr>kind = ''ValidationError'', message = ''validation error for BashRunParams''\<rparr>"
  by (simp add: example_tool_def BashRunTool_def validate_params_def BashRunParams_validate_def
      example_pydantic_def in_range_def)

theorem run_explicit_denied_witness:
  "approval_level (metadata example_tool) = EXPLICIT
   \<and> validate_params example_tool [(''command'', JStr ''ls'')] =
       Inr \<lparr>dry_run = False, command = ''ls'', timeout = 60, cwd = None\<rparr>
   \<and> \<not> isl (run example_tool 5 ''2025-01-01T00:00:05'' [(''command'', JStr ''ls'')] False example_world)
   \<and> snd (projr (run example_tool 5 ''2025-01-01T00:00:05'' [(''command'', JStr ''ls'')] False
                   example_world)) = example_world
   \<and> \<not> success (fst (projr (run example_tool 5 ''2025-01-01T00:00:05''
                               [(''command'', JStr ''ls'')] False example_world)))"
  using run_explicit_denied [OF example_tool_explicit example_validate_ls,
      of 5 "''2025-01-01T00:00:05''" example_world]
    example_tool_explicit example_validate_ls
  by (simp add: error_response_def)

theorem run_dry_run_counterexample:
  "\<not> isl (run example_tool 5 ''2025-01-01T00:00:05''
             [(''command'', JStr ''ls''), (''dry_run'', JBool True)] False example_world)
   \<and> \<not> success (fst (projr (run example_tool 5 ''2025-01-01T00:00:05''
             [(''command'', JStr ''ls''), (''dry_run'', JBool True)] False example_world)))
   \<and> \<not> r_dry_run (fst (projr (run example_tool 5 ''2025-01-01T00:00:05''
             [(''command'', JStr ''ls''), (''dry_run'', JBool True)] False example_world)))
   \<and> \<not> isl (run example_tool 5 ''2025-01-01T00:00:05'' [(''dry_run'', JBool True)] True
               example_world)
   \<and> \<not> success (fst (projr (run example_tool 5 ''2025-01-01T00:00:05''
                               [(''dry_run'', JBool True)] True example_world)))
   \<and> length (entries (w_session (snd (projr (run example_tool 5 ''2025-01-01T00:00:05''
                               [(''dry_run'', JBool True)] True example_world)))))
       = length (entries (w_session example_world)) + 1"
  by (simp add: run_def run_except_def Let_def example_validate_ls_dry example_validate_missing
      example_tool_explicit error_response_def log_tool_call_def append_entry_def load_def
      example_world_def)

theorem run_dry_run_preview_witness:
  "validate_params example_tool [(''command'', JStr ''ls''), (''dry_run'', JBool True)] =
     Inr \<lparr>dry_run = True, command = ''ls'', timeout = 60, cwd = None\<rparr>
   \<and> \<not> isl (run example_tool 5 ''2025-01-01T00:00:05''
               [(''command'', JStr ''ls''), (''dry_run'', JBool True)] True example_world)
   \<and> success (fst (projr (run example_tool 5 ''2025-01-01T00:00:05''
               [(''command'', JStr ''ls''), (''dry_run'', JBool True)] True example_world)))
   \<and> snd (projr (run example_tool 5 ''2025-01-01T00:00:05''
               [(''command'', JStr ''ls''), (''dry_run'', JBool True)] True example_world))
       = example_world"
  using run_dry_run_preview [OF example_validate_ls_dry, of True 5 "''2025-01-01T00:00:05''"
      example_world]
    example_validate_ls_dry
  by auto

theorem run_validation_error_logged_witness:
  "validate_params example_tool [(''dry_run'', JBool True)] =
     Inl \<lparr>kind = ''ValidationError'', message = ''validation error for BashRunParams''\<rparr>
   \<and> load (w_dir example_world) (w_session example_world) = Inr (w_session example_world)
   \<and> \<not> isl (run example_tool 5 ''2025-01-01T00:00:05'' [(''dry_run'', JBool True)] False
               example_world)
   \<and> map e_type (entries (w_session (snd (projr (run example_tool 5 ''2025-01-01T00:00:05''
               [(''dry_run'', JBool True)] False example_world)))))
       = [''session_start'', ''tool_call'']
   \<and> map e_error (entries (w_session (snd (projr (run example_tool 5 ''2025-01-01T00:00:05''
               [(''dry_run'', JBool True)] False example_world)))))
       = [None, Some [(''type'', ''ValidationError''),
                      (''message'', ''validation error for BashRunParams'')]]
   \<and> map e_error (read_lines (w_dir (snd (projr (run example_tool 5 ''2025-01-01T00:00:05''
               [(''dry_run'', JBool True)] False example_world)))) ''sess_abc12345'')
       = [None, Some [(''type'', ''ValidationError''),
                      (''message'', ''validation error for BashRunParams'')]]
   \<and> map_option err_type (r_error (fst (projr (run example_tool 5 ''2025-01-01T00:00:05''
               [(''dry_run'', JBool True)] False example_world))))
       = Some ''ValidationError''"
proof -
  have l: "load (w_dir example_world) (w_session example_world) = Inr (w_session example_world)"
    by (simp add: load_def example_world_def)
  have e: "entries (w_session example_world) = [example_start]"
    by (simp add: example_world_def)
  have t: "e_type example_start = ''session_start''" "e_error example_start = None"
    by (simp_all add: example_start_def SessionEntry_create_def)
  have i: "session_id (w_session example_world) = ''sess_abc12345''"
    "read_lines (w_dir example_world) ''sess_abc12345'' = [example_start]"
    by (simp_all add: example_world_def example_dir_def read_lines_def)
  from run_validation_error_logged [OF example_validate_missing l,
      of 5 "''2025-01-01T00:00:05''" False]
  show ?thesis
    using example_validate_missing l by (auto simp: e t i)
qed

section \<open>The session log: properties\<close>

lemma load_entry_replayable:
  "replayable e \<Longrightarrow>
   load_entry s e =
     Inr (s\<lparr>entries := entries s @ [e],
            project_focus := (if e_type e = ''context_change'' then carried_focus e
                              else project_focus s)\<rparr>)"
  by (auto simp: replayable_def load_entry_def carried_focus_def Let_def
      split: option.splits if_splits)

text \<open>
  The entries that the program writes can be replayed: those of
  \<^verbatim>\<open>log_context_change\<close> carry the focus, and the other kinds are not
  \<^verbatim>\<open>context_change\<close> entries.
\<close>

lemma written_entries_replayable:
  "replayable (SessionEntry_create t ''context_change'' None None JNull None
                 (Some [(''project_focus'', focus)]))"
  "replayable (SessionEntry_create t ''tool_call'' tool params result error ctx)"
  "replayable (SessionEntry_create t ''session_start'' None None JNull None None)"
  "replayable (SessionEntry_create t ''session_resume'' None None JNull None None)"
  "replayable (SessionEntry_create t ''session_continue'' None None JNull None None)"
  by (simp_all add: replayable_def SessionEntry_create_def)

lemma load_lines_replayable:
  "list_all replayable es \<Longrightarrow>
   \<exists>s'. load_lines s es = Inr s'
      \<and> entries s' = entries s @ es
      \<and> project_focus s' =
          (case rev (filter (\<lambda>e. e_type e = ''context_change'') es) of
             [] \<Rightarrow> project_focus s
           | e # _ \<Rightarrow> carried_focus e)
      \<and> loaded s' = loaded s \<and> session_id s' = session_id s"
proof (induction es arbitrary: s)
  case Nil
  then show ?case by simp
next
  case (Cons e es)
  let ?s1 = "s\<lparr>entries := entries s @ [e],
            project_focus := (if e_type e = ''context_change'' then carried_focus e
                              else project_focus s)\<rparr>"
  have e: "load_entry s e = Inr ?s1"
    using Cons.prems by (simp add: load_entry_replayable)
  from Cons.prems have "list_all replayable es" by simp
  from Cons.IH [OF this, of ?s1] obtain s' where
    s': "load_lines ?s1 es = Inr s'" "entries s' = entries ?s1 @ es"
      "project_focus s' =
          (case rev (filter (\<lambda>e. e_type e = ''context_change'') es) of
             [] \<Rightarrow> project_focus ?s1
           | e # _ \<Rightarrow> carried_focus e)"
      "loaded s' = loaded ?s1" "session_id s' = session_id ?s1"
    by blast
  have "load_lines s (e # es) = Inr s'" using e s'(1) by simp
  moreover have "entries s' = entries s @ e # es" using s'(2) by simp
  moreover have "project_focus s' =
          (case rev (filter (\<lambda>e. e_type e = ''context_change'') (e # es)) of
             [] \<Rightarrow> project_focus s
           | e # _ \<Rightarrow> carried_focus e)"
    using s'(3) by (cases "rev (filter (\<lambda>e. e_type e = ''context_change'') es)") auto
  moreover have "loaded s' = loaded s" "session_id s' = session_id s"
    using s'(4,5) by simp_all
  ultimately show ?case by blast
qed

lemma load_fresh:
  assumes "list_all replayable (read_lines dir sid)"
  shows "\<exists>r. load dir (Session_init sid) = Inr r
           \<and> entries r = read_lines dir sid
           \<and> project_focus r = last_focus (read_lines dir sid)
           \<and> loaded r \<and> session_id r = sid"
proof (cases "map_of dir sid")
  case None
  then show ?thesis
    by (simp add: load_def Session_init_def read_lines_def last_focus_def)
next
  case (Some f)
  then have l: "read_lines dir sid = log_lines f" by (simp add: read_lines_def)
  have "list_all replayable (log_lines f)" using assms l by simp
  from load_lines_replayable [OF this, of "Session_init sid"] obtain s' where
    s': "load_lines (Session_init sid) (log_lines f) = Inr s'"
      "entries s' = entries (Session_init sid) @ log_lines f"
      "project_focus s' =
          (case rev (filter (\<lambda>e. e_type e = ''context_change'') (log_lines f)) of
             [] \<Rightarrow> project_focus (Session_init sid)
           | e # _ \<Rightarrow> carried_focus e)"
      "session_id s' = session_id (Session_init sid)"
    by blast
  have pf: "project_focus (Session_init sid) = None" by (simp add: Session_init_def)
  have "project_focus s' = last_focus (log_lines f)"
    using s'(3) unfolding pf last_focus_def .
  moreover have "entries s' = log_lines f" using s'(2) by (simp add: Session_init_def)
  moreover have "session_id s' = sid" using s'(4) by (simp add: Session_init_def)
  moreover have "load dir (Session_init sid) = Inr (s'\<lparr>loaded := True\<rparr>)"
    using Some s'(1) by (simp add: load_def Session_init_def)
  ultimately show ?thesis using l by simp
qed








lemma append_entry_result:
  assumes "load dir s = Inr s1"
  shows "append_entry dir now s entry =
           Inr (s1\<lparr>entries := entries s1 @ [entry]\<rparr>, write_line dir now (session_id s) entry)"
  using assms load_session_id [OF assms] by (simp add: append_entry_def)


lemma append_all_lines:
  assumes "load dir s = Inr s1"
  shows "\<exists>s' dir'. append_all dir s es = Inr (s', dir')
           \<and> session_id s' = session_id s
           \<and> (\<forall>sid. read_lines dir' sid =
                 (if sid = session_id s then read_lines dir sid @ map snd es
                  else read_lines dir sid))
           \<and> (es \<noteq> [] \<longrightarrow> entries s' = entries s1 @ map snd es \<and> loaded s')"
  using assms
proof (induction es arbitrary: dir s s1)
  case Nil
  then show ?case by simp
next
  case (Cons x es)
  obtain now entry where x: "x = (now, entry)" by (cases x)
  let ?s2 = "s1\<lparr>entries := entries s1 @ [entry]\<rparr>"
  let ?d2 = "write_line dir now (session_id s) entry"
  have a: "append_entry dir now s entry = Inr (?s2, ?d2)"
    using Cons.prems by (rule append_entry_result)
  have id1: "session_id s1 = session_id s" using Cons.prems by (rule load_session_id)
  have "loaded s1" using Cons.prems by (rule load_loaded)
  then have l2: "load ?d2 ?s2 = Inr ?s2" by (simp add: load_def)
  from Cons.IH [OF l2] obtain s' dir' where
    r: "append_all ?d2 ?s2 es = Inr (s', dir')"
      "session_id s' = session_id ?s2"
      "\<forall>sid. read_lines dir' sid =
                 (if sid = session_id ?s2 then read_lines ?d2 sid @ map snd es
                  else read_lines ?d2 sid)"
      "es \<noteq> [] \<longrightarrow> entries s' = entries ?s2 @ map snd es \<and> loaded s'"
    by blast
  have e0: "es = [] \<Longrightarrow> s' = ?s2" using r(1) by simp
  have "append_all dir s (x # es) = Inr (s', dir')" using a r(1) x by simp
  moreover have "session_id s' = session_id s" using r(2) id1 by simp
  moreover have "\<forall>sid. read_lines dir' sid =
                 (if sid = session_id s then read_lines dir sid @ map snd (x # es)
                  else read_lines dir sid)"
    using r(3) id1 x by (simp add: read_lines_write_line)
  moreover have "entries s' = entries s1 @ map snd (x # es) \<and> loaded s'"
    using r(4) e0 x \<open>loaded s1\<close> by (cases "es = []") auto
  ultimately show ?case by blast
qed


text \<open>
  C2. For every sequence of entries appended to a session (entries a replay can read, as
  all entries that the program writes are), a fresh session for the same id that loads the
  log reports as focus the value carried by the last \<^verbatim>\<open>context_change\<close> entry
  of the log, or none when there is no such entry; only the
  \<^verbatim>\<open>context_change\<close> entries count, whatever is interleaved with them.
\<close>

theorem replay_last_context_change:
  assumes "list_all replayable (read_lines dir sid)"
    and "list_all replayable (map snd es)"
  shows "\<exists>s' dir' r. append_all dir (Session_init sid) es = Inr (s', dir')
           \<and> load dir' (Session_init sid) = Inr r
           \<and> project_focus r = last_focus (read_lines dir sid @ map snd es)
           \<and> last_focus (read_lines dir sid @ map snd es)
               = last_focus (filter (\<lambda>e. e_type e = ''context_change'')
                               (read_lines dir sid @ map snd es))"
proof -
  from load_fresh [OF assms(1)] obtain s1 where
    s1: "load dir (Session_init sid) = Inr s1" by blast
  from append_all_lines [OF s1, of es] obtain s' dir' where
    r: "append_all dir (Session_init sid) es = Inr (s', dir')"
      "\<forall>sid'. read_lines dir' sid' =
                 (if sid' = session_id (Session_init sid) then read_lines dir sid' @ map snd es
                  else read_lines dir sid')"
    by blast
  have lines: "read_lines dir' sid = read_lines dir sid @ map snd es"
    using r(2) by (simp add: Session_init_def)
  have "list_all replayable (read_lines dir' sid)" using assms lines by simp
  from load_fresh [OF this] obtain r' where
    "load dir' (Session_init sid) = Inr r'"
    "project_focus r' = last_focus (read_lines dir' sid)" by blast
  then show ?thesis using r(1) lines by (auto simp: last_focus_def)
qed


lemma example_lines: "read_lines example_dir ''sess_abc12345'' = [example_start]"
  by (simp add: read_lines_def example_dir_def)

lemma example_start_replayable: "replayable example_start"
  by (simp add: replayable_def example_start_def SessionEntry_create_def)

lemma example_appends_replayable: "list_all replayable (map snd example_appends)"
  by (simp add: example_appends_def replayable_def SessionEntry_create_def)

lemma example_last_focus:
  "last_focus (read_lines example_dir ''sess_abc12345'' @ map snd example_appends)
     = Some ''/tmp/proj''"
  by (simp add: example_lines example_appends_def last_focus_def carried_focus_def
      example_start_def SessionEntry_create_def)

theorem replay_last_context_change_witness:
  "list_all replayable (read_lines example_dir ''sess_abc12345'')
   \<and> list_all replayable (map snd example_appends)
   \<and> (\<exists>s' dir' r.
         append_all example_dir (Session_init ''sess_abc12345'') example_appends = Inr (s', dir')
         \<and> load dir' (Session_init ''sess_abc12345'') = Inr r
         \<and> project_focus r = Some ''/tmp/proj'')"
proof -
  have a: "list_all replayable (read_lines example_dir ''sess_abc12345'')"
    by (simp add: example_lines example_start_replayable)
  from replay_last_context_change [OF a example_appends_replayable]
  show ?thesis
    using a example_appends_replayable unfolding example_last_focus by blast
qed



section \<open>The session manager: properties\<close>

lemma map_of_distinct_mem:
  "distinct (map fst dir) \<Longrightarrow> (n, f) \<in> set dir \<Longrightarrow> map_of dir n = Some f"
  by simp

lemma continue_loop_find:
  assumes "\<And>n f. (n, f) \<in> set xs \<Longrightarrow> map_of dir n = Some f"
  shows "continue_loop dir clk xs =
           (case find (\<lambda>(n, f). \<not> log_expired clk f) xs of
              None \<Rightarrow> Inr None
            | Some (n, f) \<Rightarrow>
                (case load dir (Session_init n) of
                   Inl x \<Rightarrow> Inl x
                 | Inr s' \<Rightarrow>
                     (case append_entry dir (write_time clk) s'
                             (SessionEntry_create (utcnow_iso clk) ''session_continue'' None None
                                JNull None None) of
                        Inl x \<Rightarrow> Inl x
                      | Inr r \<Rightarrow> Inr (Some r))))"
  using assms
proof (induction xs)
  case Nil
  then show ?case by simp
next
  case (Cons x xs)
  obtain n f where x: "x = (n, f)" by (cases x)
  have m: "map_of dir n = Some f" using Cons.prems x by simp
  have e: "is_expired dir clk (Session_init n) = log_expired clk f"
    using m by (simp add: is_expired_def log_expired_def Session_init_def)
  have "continue_loop dir clk xs =
           (case find (\<lambda>(n, f). \<not> log_expired clk f) xs of
              None \<Rightarrow> Inr None
            | Some (n, f) \<Rightarrow>
                (case load dir (Session_init n) of
                   Inl x \<Rightarrow> Inl x
                 | Inr s' \<Rightarrow>
                     (case append_entry dir (write_time clk) s'
                             (SessionEntry_create (utcnow_iso clk) ''session_continue'' None None
                                JNull None None) of
                        Inl x \<Rightarrow> Inl x
                      | Inr r \<Rightarrow> Inr (Some r))))"
    using Cons.IH Cons.prems by simp
  then show ?case using x e by (simp add: Let_def)
qed

lemma continue_last_session_find:
  assumes "distinct (map fst dir)"
  shows "continue_last_session dir clk =
           (case first_unexpired dir clk of
              None \<Rightarrow> Inr None
            | Some (n, f) \<Rightarrow>
                (case load dir (Session_init n) of
                   Inl x \<Rightarrow> Inl x
                 | Inr s' \<Rightarrow>
                     (case append_entry dir (write_time clk) s'
                             (SessionEntry_create (utcnow_iso clk) ''session_continue'' None None
                                JNull None None) of
                        Inl x \<Rightarrow> Inl x
                      | Inr r \<Rightarrow> Inr (Some r))))"
proof -
  have mem: "map_of dir n = Some f" if "(n, f) \<in> set (newest_first (glob_sessions dir))" for n f
  proof -
    from that have "(n, f) \<in> set dir" by (simp add: newest_first_def glob_sessions_def)
    with assms show ?thesis by simp
  qed
  show ?thesis
  proof (cases "glob_sessions dir = []")
    case True
    then show ?thesis
      by (simp add: continue_last_session_def first_unexpired_def newest_first_def)
  next
    case False
    then show ?thesis
      using continue_loop_find [of "newest_first (glob_sessions dir)" dir clk] mem
      by (simp add: continue_last_session_def first_unexpired_def)
  qed
qed

lemma first_unexpired_None:
  "(first_unexpired dir clk = None) =
     list_all (\<lambda>(n, f). log_expired clk f) (glob_sessions dir)"
  by (auto simp: first_unexpired_def find_None_iff newest_first_def list_all_iff)

lemma first_unexpired_Some:
  assumes "first_unexpired dir clk = Some (n, f)" and "distinct (map fst dir)"
  shows "map_of dir n = Some f" and "\<not> log_expired clk f" and "prefix ''sess_'' n"
proof -
  from assms(1) have "(n, f) \<in> set (newest_first (glob_sessions dir))"
    and ne: "\<not> log_expired clk f"
    by (auto simp: first_unexpired_def find_Some_iff in_set_conv_nth)
  then have "(n, f) \<in> set dir" and p: "prefix ''sess_'' n"
    by (auto simp: newest_first_def glob_sessions_def)
  with assms(2) show "map_of dir n = Some f" by simp
  show "\<not> log_expired clk f" by (rule ne)
  show "prefix ''sess_'' n" by (rule p)
qed

lemma newest_first_sorted:
  "sorted_wrt (\<lambda>a b. mtime (snd b) \<le> mtime (snd a)) (newest_first fs)"
proof -
  have "sorted (map (\<lambda>(n, f). - mtime f) (newest_first fs))"
    unfolding newest_first_def by (rule sorted_sort_key)
  then show ?thesis
    by (simp add: sorted_map case_prod_beta)
qed

lemma newest_first_set: "set (newest_first fs) = set fs"
  by (simp add: newest_first_def)

text \<open>
  C7. In a directory of session logs, continue-most-recent returns the session of the
  first log that is not expired, in the order of modification time with the newest first,
  also when the newest log is expired; it returns no session exactly when every log is
  expired or there is none, and only then does \<^verbatim>\<open>get_or_create_session\<close> (with
  no id to resume) create a new session.
\<close>

theorem continue_last_session_first_unexpired:
  assumes "distinct (map fst dir)"
  shows "((first_unexpired dir clk = None) =
            list_all (\<lambda>(n, f). log_expired clk f) (glob_sessions dir))
         \<and> (first_unexpired dir clk = None \<longrightarrow>
              continue_last_session dir clk = Inr None
              \<and> get_or_create_session dir clk rand None True = create_session dir clk rand)
         \<and> (\<forall>n f. first_unexpired dir clk = Some (n, f) \<and> list_all replayable (log_lines f) \<longrightarrow>
              (\<exists>s' dir'. continue_last_session dir clk = Inr (Some (s', dir'))
                 \<and> get_or_create_session dir clk rand None True = Inr (s', dir')
                 \<and> session_id s' = n
                 \<and> entries s' = log_lines f @
                      [SessionEntry_create (utcnow_iso clk) ''session_continue'' None None JNull
                         None None]
                 \<and> read_lines dir' n = entries s'))"
proof (intro conjI)
  show "(first_unexpired dir clk = None) =
           list_all (\<lambda>(n, f). log_expired clk f) (glob_sessions dir)"
    by (rule first_unexpired_None)
  show "first_unexpired dir clk = None \<longrightarrow>
           continue_last_session dir clk = Inr None
           \<and> get_or_create_session dir clk rand None True = create_session dir clk rand"
    using continue_last_session_find [OF assms, of clk]
    by (simp add: get_or_create_session_def)
  show "\<forall>n f. first_unexpired dir clk = Some (n, f) \<and> list_all replayable (log_lines f) \<longrightarrow>
           (\<exists>s' dir'. continue_last_session dir clk = Inr (Some (s', dir'))
              \<and> get_or_create_session dir clk rand None True = Inr (s', dir')
              \<and> session_id s' = n
              \<and> entries s' = log_lines f @
                   [SessionEntry_create (utcnow_iso clk) ''session_continue'' None None JNull
                      None None]
              \<and> read_lines dir' n = entries s')"
  proof (intro allI impI)
    fix n f
    assume h: "first_unexpired dir clk = Some (n, f) \<and> list_all replayable (log_lines f)"
    let ?e = "SessionEntry_create (utcnow_iso clk) ''session_continue'' None None JNull None None"
    from h have m: "map_of dir n = Some f"
      using first_unexpired_Some(1) [OF _ assms] by blast
    then have rl: "read_lines dir n = log_lines f" by (simp add: read_lines_def)
    with h have "list_all replayable (read_lines dir n)" by simp
    from load_fresh [OF this] obtain r where
      r: "load dir (Session_init n) = Inr r" "entries r = log_lines f" "loaded r"
        "session_id r = n"
      using rl by auto
    have lr: "load dir r = Inr r" using r(3) by (simp add: load_def)
    let ?s' = "r\<lparr>entries := entries r @ [?e]\<rparr>"
    let ?d' = "write_line dir (write_time clk) n ?e"
    have a: "append_entry dir (write_time clk) r ?e = Inr (?s', ?d')"
      using append_entry_result [OF lr, of "write_time clk" ?e] r(4) by simp
    have c: "continue_last_session dir clk = Inr (Some (?s', ?d'))"
      using continue_last_session_find [OF assms, of clk] h r(1) a by simp
    then have g: "get_or_create_session dir clk rand None True = Inr (?s', ?d')"
      by (simp add: get_or_create_session_def)
    have "read_lines ?d' n = entries ?s'"
      using rl r(2) by (simp add: read_lines_write_line)
    with c g r show "\<exists>s' dir'. continue_last_session dir clk = Inr (Some (s', dir'))
              \<and> get_or_create_session dir clk rand None True = Inr (s', dir')
              \<and> session_id s' = n
              \<and> entries s' = log_lines f @ [?e]
              \<and> read_lines dir' n = entries s'"
      by simp
  qed
qed

lemma example_first_unexpired:
  "first_unexpired example_logs example_clock
     = Some (''sess_second00'', \<lparr>mtime = 1000, log_lines = [example_start]\<rparr>)"
  by (simp add: first_unexpired_def example_logs_def example_clock_def glob_sessions_def
      newest_first_def log_expired_def timedelta_hours_def SESSION_TTL_HOURS_def)


lemma example_newest_first:
  "newest_first (glob_sessions example_logs) =
     [(''sess_newest00'', \<lparr>mtime = 2000, log_lines = [example_start]\<rparr>),
      (''sess_second00'', \<lparr>mtime = 1000, log_lines = [example_start]\<rparr>),
      (''sess_oldest00'', \<lparr>mtime = 500, log_lines = [example_start]\<rparr>)]"
  by (simp add: example_logs_def glob_sessions_def newest_first_def)

theorem continue_last_session_first_unexpired_witness:
  "distinct (map fst example_logs)
   \<and> newest_first (glob_sessions example_logs) =
       [(''sess_newest00'', \<lparr>mtime = 2000, log_lines = [example_start]\<rparr>),
        (''sess_second00'', \<lparr>mtime = 1000, log_lines = [example_start]\<rparr>),
        (''sess_oldest00'', \<lparr>mtime = 500, log_lines = [example_start]\<rparr>)]
   \<and> log_expired example_clock \<lparr>mtime = 2000, log_lines = [example_start]\<rparr>
   \<and> \<not> log_expired example_clock \<lparr>mtime = 1000, log_lines = [example_start]\<rparr>
   \<and> (\<exists>s' dir'. continue_last_session example_logs example_clock = Inr (Some (s', dir'))
         \<and> get_or_create_session example_logs example_clock ''zzzzzzzz'' None True
             = Inr (s', dir')
         \<and> session_id s' = ''sess_second00''
         \<and> map e_type (entries s') = [''session_start'', ''session_continue''])"
proof -
  have d: "distinct (map fst example_logs)" by (simp add: example_logs_def)
  have x: "log_expired example_clock \<lparr>mtime = 2000, log_lines = [example_start]\<rparr>"
    "\<not> log_expired example_clock \<lparr>mtime = 1000, log_lines = [example_start]\<rparr>"
    by (simp_all add: log_expired_def example_clock_def timedelta_hours_def
        SESSION_TTL_HOURS_def)
  have r: "list_all replayable (log_lines \<lparr>mtime = 1000, log_lines = [example_start]\<rparr>)"
    by (simp add: example_start_replayable)
  have t: "e_type example_start = ''session_start''"
    by (simp add: example_start_def SessionEntry_create_def)
  from continue_last_session_first_unexpired [OF d, of example_clock "''zzzzzzzz''"]
    example_first_unexpired r
  obtain s' dir' where
    "continue_last_session example_logs example_clock = Inr (Some (s', dir'))"
    "get_or_create_session example_logs example_clock ''zzzzzzzz'' None True = Inr (s', dir')"
    "session_id s' = ''sess_second00''"
    "entries s' = log_lines \<lparr>mtime = 1000, log_lines = [example_start]\<rparr> @
                   [SessionEntry_create (utcnow_iso example_clock) ''session_continue'' None None
                      JNull None None]"
    by blast
  then show ?thesis
    using d x example_newest_first by (auto simp: t SessionEntry_create_def)
qed

end
